theory Spec2Isabelle
  imports Main "HOL-Library.Word"
begin

section \<open>The context menu of the Wavebox browser webview\<close>

text \<open>
  This theory embeds \<^verbatim>\<open>src/scenes/platform/src/webviewInjection/Browser/ContextMenu.js\<close>:
  the class \<^verbatim>\<open>ContextMenu\<close> with its methods \<^verbatim>\<open>_renderSuggestionMenuItems_\<close> and
  \<^verbatim>\<open>launchMenu\<close>. The method \<^verbatim>\<open>launchMenu\<close> fills the array \<^verbatim>\<open>menuTemplate\<close> and hands
  it to Electron's \<^verbatim>\<open>Menu.buildFromTemplate\<close>; the model returns that array, or the
  exception that the method raises before it reaches that call.
\<close>

subsection \<open>Strings\<close>

text \<open>
  A JavaScript string is a sequence of UTF-16 code units: \<^verbatim>\<open>length\<close> counts code units
  and \<^verbatim>\<open>substr(0, n)\<close> keeps the first \<^verbatim>\<open>n\<close> of them. The literals of the source are
  ASCII except for three characters of the Basic Multilingual Plane, one code unit each.
\<close>

type_synonym jsstring = "16 word list"

definition ascii :: "string \<Rightarrow> jsstring" where
  "ascii s = map of_char s"

definition ldquo :: "16 word" where
  "ldquo = 0x201C"

definition rdquo :: "16 word" where
  "rdquo = 0x201D"

definition ellipsis :: "16 word" where
  "ellipsis = 0x2026"

text \<open>
  The fields \<^verbatim>\<open>misspelledWord\<close>, \<^verbatim>\<open>selectionText\<close> and \<^verbatim>\<open>linkURL\<close> are tested by
  truthiness (\<^verbatim>\<open>if (params.linkURL)\<close>): \<^verbatim>\<open>null\<close>, \<^verbatim>\<open>undefined\<close> and the empty string are
  falsy, every other string is truthy.
\<close>

definition truthy :: "jsstring option \<Rightarrow> bool" where
  "truthy s = (case s of None \<Rightarrow> False | Some t \<Rightarrow> t \<noteq> [])"

subsection \<open>Inputs\<close>

record edit_flags =
  canUndo :: bool
  canRedo :: bool
  canCut :: bool
  canCopy :: bool
  canPaste :: bool
  canSelectAll :: bool

text \<open>The \<^verbatim>\<open>params\<close> of the \<^verbatim>\<open>context-menu\<close> event; \<^verbatim>\<open>pos_x\<close>, \<^verbatim>\<open>pos_y\<close> are \<^verbatim>\<open>params.x\<close>, \<^verbatim>\<open>params.y\<close>.\<close>

record menu_params =
  isEditable :: bool
  misspelledWord :: "jsstring option"
  selectionText :: "jsstring option"
  linkURL :: "jsstring option"
  editFlags :: edit_flags
  pos_x :: int
  pos_y :: int

text \<open>
  What \<^verbatim>\<open>spellchecker.suggestions(word)\<close> returns: \<^verbatim>\<open>primary\<close> and \<^verbatim>\<open>secondary\<close> are each
  an object or \<^verbatim>\<open>null\<close>, and the list \<^verbatim>\<open>suggestions\<close> of such an object may be missing.
\<close>

record lang_suggestions =
  language :: jsstring
  suggestions :: "jsstring list option"

record spell_suggestions =
  primary :: "lang_suggestions option"
  secondary :: "lang_suggestions option"

text \<open>The spellchecker object; \<^verbatim>\<open>suggestions_of\<close> is its method \<^verbatim>\<open>suggestions\<close>.\<close>

record spellchecker =
  hasSpellchecker :: bool
  suggestions_of :: "jsstring \<Rightarrow> spell_suggestions"

record config =
  copyCurrentPageUrlOption :: bool
  openCurrentPageInBrowserOption :: bool

definition defaultConfig :: config where
  "defaultConfig = \<lparr>copyCurrentPageUrlOption = False, openCurrentPageInBrowserOption = False\<rparr>"

text \<open>
  The table \<^verbatim>\<open>dictInfo\<close> is required from \<^verbatim>\<open>app/shared/dictionaries.js\<close>; it is a
  parameter of the model, a lookup from a language code to an entry whose \<^verbatim>\<open>name\<close> may be
  missing. The platform string \<^verbatim>\<open>process.platform\<close> is a parameter as well.
\<close>

record dict_entry =
  name :: "jsstring option"

type_synonym dict_info = "jsstring \<Rightarrow> dict_entry option"

subsection \<open>Menu templates\<close>

text \<open>
  A \<^verbatim>\<open>click\<close> closure is kept as the call it makes once the item is activated, with the
  values it has captured.
\<close>

datatype action =
    ReplaceMisspelling jsstring
  | OpenExternal jsstring
  | OpenExternalNoActivate jsstring
  | ClipboardWriteText jsstring
  | AddCustomWord jsstring
  | SearchGoogle jsstring
  | CopyLocationHref
  | OpenLocationHref
  | SendOpenSettings
  | InspectElement int int

text \<open>
  An entry of \<^verbatim>\<open>menuTemplate\<close> is an object literal of one of three shapes. In \<open>Item\<close> the
  fields are \<^verbatim>\<open>label\<close>, \<^verbatim>\<open>click\<close>, \<^verbatim>\<open>role\<close> and \<^verbatim>\<open>enabled\<close>, the last three \<open>None\<close> where
  the literal leaves them out; \<open>Submenu\<close> is \<^verbatim>\<open>{ label, submenu }\<close> and \<open>Separator\<close> is
  \<^verbatim>\<open>{ type: 'separator' }\<close>.
\<close>

datatype menu_node =
    Item jsstring "action option" "jsstring option" "bool option"
  | Submenu jsstring "menu_node list"
  | Separator

datatype error = TypeError | URIError

fun label_of :: "menu_node \<Rightarrow> jsstring option" where
  "label_of (Item l c r e) = Some l"
| "label_of (Submenu l ns) = Some l"
| "label_of Separator = None"

fun click_of :: "menu_node \<Rightarrow> action option" where
  "click_of (Item l c r e) = c"
| "click_of (Submenu l ns) = None"
| "click_of Separator = None"

fun role_of :: "menu_node \<Rightarrow> jsstring option" where
  "role_of (Item l c r e) = r"
| "role_of (Submenu l ns) = None"
| "role_of Separator = None"

text \<open>Electron enables an item whose template leaves \<^verbatim>\<open>enabled\<close> out.\<close>

fun is_enabled :: "menu_node \<Rightarrow> bool" where
  "is_enabled (Item l c r e) = (case e of None \<Rightarrow> True | Some b \<Rightarrow> b)"
| "is_enabled (Submenu l ns) = True"
| "is_enabled Separator = True"

fun is_item :: "menu_node \<Rightarrow> bool" where
  "is_item (Item l c r e) = True"
| "is_item (Submenu l ns) = False"
| "is_item Separator = False"

subsection \<open>Activation of an item\<close>

text \<open>
  What a \<^verbatim>\<open>click\<close> closure does when Electron calls it. The built-in
  \<^verbatim>\<open>encodeURIComponent\<close> and the value of \<^verbatim>\<open>window.location.href\<close> at that moment belong to
  the environment of the call; \<^verbatim>\<open>encodeURIComponent\<close> raises a \<^verbatim>\<open>URIError\<close> on a string with
  an unpaired surrogate, which is the result \<open>None\<close> here.
\<close>

record click_env =
  encodeURIComponent :: "jsstring \<Rightarrow> jsstring option"
  location_href :: jsstring

datatype effect =
    WebContentsReplaceMisspelling jsstring
  | ShellOpenExternal jsstring bool
  | ClipboardWrite jsstring
  | SpellcheckerAddCustomWord jsstring
  | IpcSendToHost jsstring
  | WebContentsInspectElement int int

fun run_click :: "click_env \<Rightarrow> action \<Rightarrow> error + effect" where
  "run_click env (ReplaceMisspelling s) = Inr (WebContentsReplaceMisspelling s)"
| "run_click env (OpenExternal u) = Inr (ShellOpenExternal u True)"
| "run_click env (OpenExternalNoActivate u) = Inr (ShellOpenExternal u False)"
| "run_click env (ClipboardWriteText u) = Inr (ClipboardWrite u)"
| "run_click env (AddCustomWord w) = Inr (SpellcheckerAddCustomWord w)"
| "run_click env (SearchGoogle s) =
     (case encodeURIComponent env s of
        None \<Rightarrow> Inl URIError
      | Some q \<Rightarrow> Inr (ShellOpenExternal (ascii ''https://google.com/search?q='' @ q) True))"
| "run_click env CopyLocationHref = Inr (ClipboardWrite (location_href env))"
| "run_click env OpenLocationHref = Inr (ShellOpenExternal (location_href env) True)"
| "run_click env SendOpenSettings = Inr (IpcSendToHost (ascii ''open-settings''))"
| "run_click env (InspectElement a b) = Inr (WebContentsInspectElement a b)"

subsection \<open>Rendering suggestions (lines 43-56)\<close>

text \<open>
  The method \<^verbatim>\<open>_renderSuggestionMenuItems_\<close>, named here without its underscores, on an
  array of strings.
\<close>

definition suggestion_item :: "jsstring \<Rightarrow> menu_node" where
  "suggestion_item suggestion = Item suggestion (Some (ReplaceMisspelling suggestion)) None None"

definition no_suggestions_item :: menu_node where
  "no_suggestions_item = Item (ascii ''No Spelling Suggestions'') None None (Some False)"

definition renderSuggestionMenuItems :: "jsstring list \<Rightarrow> menu_node list" where
  "renderSuggestionMenuItems suggs =
     (if length suggs \<noteq> 0 then map suggestion_item suggs else [no_suggestions_item])"

text \<open>
  The same method called on a field that may be \<^verbatim>\<open>null\<close> or \<^verbatim>\<open>undefined\<close>: reading
  \<^verbatim>\<open>suggestions.length\<close> then raises a \<^verbatim>\<open>TypeError\<close>.
\<close>

definition renderSuggestionField :: "jsstring list option \<Rightarrow> error + menu_node list" where
  "renderSuggestionField f =
     (case f of None \<Rightarrow> Inl TypeError | Some suggs \<Rightarrow> Inr (renderSuggestionMenuItems suggs))"

subsection \<open>The sections of the menu (lines 63-181)\<close>

text \<open>The condition of lines 67 and 106.\<close>

definition spelling_gate :: "spellchecker option \<Rightarrow> menu_params \<Rightarrow> bool" where
  "spelling_gate sc params =
     (isEditable params \<and> truthy (misspelledWord params) \<and>
      (case sc of None \<Rightarrow> False | Some s \<Rightarrow> hasSpellchecker s))"

text \<open>\<^verbatim>\<open>(dictInfo[language] || {}).name || language\<close>, lines 71 and 75.\<close>

definition language_label :: "dict_info \<Rightarrow> jsstring \<Rightarrow> jsstring" where
  "language_label dictInfo lang =
     (case dictInfo lang of
        None \<Rightarrow> lang
      | Some entry \<Rightarrow>
          (case name entry of
             None \<Rightarrow> lang
           | Some n \<Rightarrow> (if n \<noteq> [] then n else lang)))"

text \<open>
  Lines 69-81, on the object returned by \<^verbatim>\<open>spellchecker.suggestions\<close>. With both languages
  present each gets a submenu. Otherwise line 79 evaluates
  \<^verbatim>\<open>suggestions.primary.suggestions || suggestions.secondary.suggestions || []\<close>:
  with \<^verbatim>\<open>primary\<close> null the first property read raises; with \<^verbatim>\<open>primary\<close> present, hence
  \<^verbatim>\<open>secondary\<close> null, a missing list makes the second property read raise.
\<close>

definition suggestion_nodes :: "dict_info \<Rightarrow> spell_suggestions \<Rightarrow> error + menu_node list" where
  "suggestion_nodes dictInfo suggs =
     (case primary suggs of
        None \<Rightarrow> Inl TypeError
      | Some p \<Rightarrow>
          (case secondary suggs of
             Some s \<Rightarrow>
               (case renderSuggestionField (suggestions p) of
                  Inl e \<Rightarrow> Inl e
                | Inr pitems \<Rightarrow>
                    (case renderSuggestionField (suggestions s) of
                       Inl e \<Rightarrow> Inl e
                     | Inr sitems \<Rightarrow>
                         Inr [Submenu (language_label dictInfo (language p)) pitems,
                              Submenu (language_label dictInfo (language s)) sitems]))
           | None \<Rightarrow>
               (case suggestions p of
                  Some suggList \<Rightarrow> Inr (renderSuggestionMenuItems suggList)
                | None \<Rightarrow> Inl TypeError)))"

text \<open>Lines 66-83.\<close>

definition spelling_section ::
  "dict_info \<Rightarrow> spellchecker option \<Rightarrow> menu_params \<Rightarrow> error + menu_node list" where
  "spelling_section dictInfo sc params =
     (if spelling_gate sc params then
        (case (sc, misspelledWord params) of
           (Some s, Some w) \<Rightarrow>
             (case suggestion_nodes dictInfo (suggestions_of s w) of
                Inl e \<Rightarrow> Inl e
              | Inr nodes \<Rightarrow> Inr (nodes @ [Separator]))
         | _ \<Rightarrow> Inr [])
      else Inr [])"

text \<open>Lines 85-102.\<close>

definition link_items :: "string \<Rightarrow> jsstring \<Rightarrow> menu_node list" where
  "link_items platform url =
     [Item (ascii ''Open Link'') (Some (OpenExternal url)) None None] @
     (if platform = ''darwin''
      then [Item (ascii ''Open Link in Background'') (Some (OpenExternalNoActivate url)) None None]
      else []) @
     [Item (ascii ''Copy link Address'') (Some (ClipboardWriteText url)) None None]"

definition link_section :: "string \<Rightarrow> menu_params \<Rightarrow> menu_node list" where
  "link_section platform params =
     (case linkURL params of
        Some url \<Rightarrow> (if url \<noteq> [] then link_items platform url @ [Separator] else [])
      | None \<Rightarrow> [])"

text \<open>Lines 113-115.\<close>

definition displayText :: "jsstring \<Rightarrow> jsstring" where
  "displayText sel = (if length sel \<ge> 50 then take 47 sel @ [ellipsis] else sel)"

definition add_to_dictionary_item :: "jsstring \<Rightarrow> menu_node" where
  "add_to_dictionary_item w =
     Item (ascii ''Add '' @ [ldquo] @ w @ [rdquo] @ ascii '' to Dictionary'')
          (Some (AddCustomWord w)) None None"

definition search_item :: "jsstring \<Rightarrow> menu_node" where
  "search_item sel =
     Item (ascii ''Search Google for '' @ [ldquo] @ displayText sel @ [rdquo])
          (Some (SearchGoogle sel)) None None"

text \<open>Lines 104-121.\<close>

definition search_section :: "spellchecker option \<Rightarrow> menu_params \<Rightarrow> menu_node list" where
  "search_section sc params =
     (case selectionText params of
        Some sel \<Rightarrow>
          (if sel \<noteq> [] then
             (if spelling_gate sc params
              then (case misspelledWord params of
                      Some w \<Rightarrow> [add_to_dictionary_item w]
                    | None \<Rightarrow> [])
              else []) @
             [search_item sel, Separator]
           else [])
      | None \<Rightarrow> [])"

text \<open>Lines 133-138.\<close>

definition undo_section :: "edit_flags \<Rightarrow> menu_node list" where
  "undo_section flags =
     (if canUndo flags \<or> canRedo flags then
        [Item (ascii ''Undo'') None (Some (ascii ''undo'')) (Some (canUndo flags)),
         Item (ascii ''Redo'') None (Some (ascii ''redo'')) (Some (canRedo flags)),
         Separator]
      else [])"

text \<open>Lines 141-147: the array of items or \<^verbatim>\<open>null\<close>, filtered.\<close>

definition role_item :: "string \<Rightarrow> string \<Rightarrow> menu_node" where
  "role_item l r = Item (ascii l) None (Some (ascii r)) None"

definition textEditingMenu :: "edit_flags \<Rightarrow> menu_node list" where
  "textEditingMenu flags =
     map the (filter (\<lambda>item. item \<noteq> None)
       [if canCut flags then Some (role_item ''Cut'' ''cut'') else None,
        if canCopy flags then Some (role_item ''Copy'' ''copy'') else None,
        if canPaste flags then Some (role_item ''Paste'' ''paste'') else None,
        if canPaste flags
          then Some (role_item ''Paste and match style'' ''pasteandmatchstyle'') else None,
        if canSelectAll flags then Some (role_item ''Select all'' ''selectall'') else None])"

text \<open>Lines 148-151.\<close>

definition text_editing_section :: "edit_flags \<Rightarrow> menu_node list" where
  "text_editing_section flags =
     (if length (textEditingMenu flags) \<noteq> 0 then textEditingMenu flags @ [Separator] else [])"

text \<open>Lines 153-171.\<close>

definition copy_current_url_item :: menu_node where
  "copy_current_url_item = Item (ascii ''Copy current URL'') (Some CopyLocationHref) None None"

definition open_page_item :: menu_node where
  "open_page_item = Item (ascii ''Open page in Browser'') (Some OpenLocationHref) None None"

definition current_page_section :: "config \<Rightarrow> menu_node list" where
  "current_page_section cfg =
     (let t1 = (if copyCurrentPageUrlOption cfg then [copy_current_url_item] else []);
          t2 = (if openCurrentPageInBrowserOption cfg then [open_page_item] else []);
          currentPageHasOption =
            (copyCurrentPageUrlOption cfg \<or> openCurrentPageInBrowserOption cfg)
      in t1 @ t2 @ (if currentPageHasOption then [Separator] else []))"

text \<open>Lines 173-181.\<close>

definition wavebox_section :: "menu_params \<Rightarrow> menu_node list" where
  "wavebox_section params =
     [Item (ascii ''Wavebox Settings'') (Some SendOpenSettings) None None,
      Item (ascii ''Inspect'') (Some (InspectElement (pos_x params) (pos_y params))) None None]"

subsection \<open>\<^verbatim>\<open>launchMenu\<close>\<close>

text \<open>
  The template that \<^verbatim>\<open>launchMenu\<close> passes to \<^verbatim>\<open>Menu.buildFromTemplate\<close>, for the platform
  \<open>platform\<close>, the dictionary table \<open>dictInfo\<close>, \<^verbatim>\<open>this.config\<close> and \<^verbatim>\<open>this.spellchecker\<close>
  (\<open>None\<close> when the constructor got none); \<open>Inl\<close> when the method raises before that call.
  The sections after the spelling section raise nothing.
\<close>

definition launchMenu ::
  "string \<Rightarrow> dict_info \<Rightarrow> config \<Rightarrow> spellchecker option \<Rightarrow> menu_params
     \<Rightarrow> error + menu_node list" where
  "launchMenu platform dictInfo cfg sc params =
     (case spelling_section dictInfo sc params of
        Inl e \<Rightarrow> Inl e
      | Inr spelling \<Rightarrow>
          Inr (spelling @
               link_section platform params @
               search_section sc params @
               undo_section (editFlags params) @
               text_editing_section (editFlags params) @
               current_page_section cfg @
               wavebox_section params))"

subsection \<open>Properties of a template\<close>

text \<open>Two neighbouring entries that are both separators.\<close>

fun adjacent_separators :: "menu_node list \<Rightarrow> bool" where
  "adjacent_separators (a # b # ns) =
     ((a = Separator \<and> b = Separator) \<or> adjacent_separators (b # ns))"
| "adjacent_separators ns = False"

text \<open>
  What a section may add to the template: nothing, or at least one entry that is not a
  separator, followed by one separator.
\<close>

definition closed_section :: "menu_node list \<Rightarrow> bool" where
  "closed_section s =
     (s = [] \<or>
      (butlast s \<noteq> [] \<and> list_all (\<lambda>n. n \<noteq> Separator) (butlast s) \<and> last s = Separator))"

text \<open>
  A template that is not empty, neither starts nor ends with a separator and has no two
  separators next to each other.
\<close>

definition well_separated :: "menu_node list \<Rightarrow> bool" where
  "well_separated t =
     (t \<noteq> [] \<and> hd t \<noteq> Separator \<and> \<not> adjacent_separators t \<and> last t \<noteq> Separator)"

text \<open>The entries of lines 87-100, told by their label and by the call of their closure.\<close>

fun is_link_item :: "menu_node \<Rightarrow> bool" where
  "is_link_item (Item l (Some (OpenExternal u)) r e) = (l = ascii ''Open Link'')"
| "is_link_item (Item l (Some (OpenExternalNoActivate u)) r e) =
     (l = ascii ''Open Link in Background'')"
| "is_link_item (Item l (Some (ClipboardWriteText u)) r e) = (l = ascii ''Copy link Address'')"
| "is_link_item n = False"

text \<open>The two entries of lines 144 and 145, told by their role.\<close>

definition is_paste_item :: "menu_node \<Rightarrow> bool" where
  "is_paste_item n =
     (role_of n = Some (ascii ''paste'') \<or> role_of n = Some (ascii ''pasteandmatchstyle''))"

text \<open>
  The entries of the spelling section: a language submenu, a suggestion, or the placeholder
  of line 53.
\<close>

fun is_spelling_node :: "menu_node \<Rightarrow> bool" where
  "is_spelling_node (Submenu l ns) = True"
| "is_spelling_node (Item l (Some (ReplaceMisspelling s)) r e) = True"
| "is_spelling_node (Item l c r e) = (l = ascii ''No Spelling Suggestions'')"
| "is_spelling_node Separator = False"

fun is_add_to_dictionary :: "menu_node \<Rightarrow> bool" where
  "is_add_to_dictionary (Item l (Some (AddCustomWord w)) r e) = True"
| "is_add_to_dictionary n = False"

fun is_search_item :: "menu_node \<Rightarrow> bool" where
  "is_search_item (Item l (Some (SearchGoogle s)) r e) = True"
| "is_search_item n = False"

definition is_current_page_item :: "menu_node \<Rightarrow> bool" where
  "is_current_page_item n =
     (click_of n = Some CopyLocationHref \<or> click_of n = Some OpenLocationHref)"

subsection \<open>Concrete inputs\<close>

definition no_dictInfo :: dict_info where
  "no_dictInfo lang = None"

definition no_edit_flags :: edit_flags where
  "no_edit_flags = \<lparr>canUndo = False, canRedo = False, canCut = False, canCopy = False,
                     canPaste = False, canSelectAll = False\<rparr>"

definition plain_params :: menu_params where
  "plain_params = \<lparr>isEditable = False, misspelledWord = None, selectionText = None,
                    linkURL = None, editFlags = no_edit_flags, pos_x = 10, pos_y = 20\<rparr>"

definition teh_params :: menu_params where
  "teh_params = plain_params\<lparr>isEditable := True, misspelledWord := Some (ascii ''teh'')\<rparr>"

definition en_suggestions :: lang_suggestions where
  "en_suggestions = \<lparr>language = ascii ''en'', suggestions = Some [ascii ''the'', ascii ''ten'']\<rparr>"

definition de_suggestions :: lang_suggestions where
  "de_suggestions = \<lparr>language = ascii ''de'', suggestions = Some []\<rparr>"

definition primary_only_checker :: spellchecker where
  "primary_only_checker =
     \<lparr>hasSpellchecker = True,
      suggestions_of = (\<lambda>w. \<lparr>primary = Some en_suggestions, secondary = None\<rparr>)\<rparr>"

definition secondary_only_checker :: spellchecker where
  "secondary_only_checker =
     \<lparr>hasSpellchecker = True,
      suggestions_of = (\<lambda>w. \<lparr>primary = None, secondary = Some en_suggestions\<rparr>)\<rparr>"

definition two_language_checker :: spellchecker where
  "two_language_checker =
     \<lparr>hasSpellchecker = True,
      suggestions_of = (\<lambda>w. \<lparr>primary = Some en_suggestions, secondary = Some de_suggestions\<rparr>)\<rparr>"

definition disabled_checker :: spellchecker where
  "disabled_checker = primary_only_checker\<lparr>hasSpellchecker := False\<rparr>"

definition both_options_config :: config where
  "both_options_config =
     \<lparr>copyCurrentPageUrlOption = True, openCurrentPageInBrowserOption = True\<rparr>"

definition no_language_checker :: spellchecker where
  "no_language_checker =
     \<lparr>hasSpellchecker = True, suggestions_of = (\<lambda>w. \<lparr>primary = None, secondary = None\<rparr>)\<rparr>"

definition rich_params :: menu_params where
  "rich_params = teh_params\<lparr>selectionText := Some (ascii ''teh''),
     linkURL := Some (ascii ''https://wavebox.io/''),
     editFlags := no_edit_flags\<lparr>canUndo := True, canCopy := True, canPaste := True\<rparr>\<rparr>"

definition long_selection :: jsstring where
  "long_selection = replicate 50 0x61"

definition long_selection_params :: menu_params where
  "long_selection_params = plain_params\<lparr>selectionText := Some long_selection\<rparr>"

definition empty_link_params :: menu_params where
  "empty_link_params = plain_params\<lparr>linkURL := Some []\<rparr>"

definition paste_only_params :: menu_params where
  "paste_only_params = plain_params\<lparr>editFlags := no_edit_flags\<lparr>canPaste := True\<rparr>\<rparr>"

text \<open>
  An environment whose \<^verbatim>\<open>encodeURIComponent\<close> is defined on strings of ASCII letters and
  digits only, which the built-in returns unchanged.
\<close>

definition is_alnum :: "16 word \<Rightarrow> bool" where
  "is_alnum c =
     ((0x30 \<le> c \<and> c \<le> 0x39) \<or> (0x41 \<le> c \<and> c \<le> 0x5A) \<or> (0x61 \<le> c \<and> c \<le> 0x7A))"

definition alnum_env :: click_env where
  "alnum_env = \<lparr>encodeURIComponent = (\<lambda>s. if list_all is_alnum s then Some s else None),
                 location_href = ascii ''https://wavebox.io/''\<rparr>"

section \<open>Verification\<close>

lemmas section_defs = spelling_section_def spelling_gate_def truthy_def suggestion_nodes_def
  renderSuggestionField_def renderSuggestionMenuItems_def suggestion_item_def
  no_suggestions_item_def language_label_def link_section_def link_items_def
  search_section_def search_item_def add_to_dictionary_item_def displayText_def
  undo_section_def text_editing_section_def textEditingMenu_def role_item_def
  current_page_section_def copy_current_url_item_def open_page_item_def wavebox_section_def

lemmas input_defs = no_dictInfo_def no_edit_flags_def plain_params_def teh_params_def
  en_suggestions_def de_suggestions_def primary_only_checker_def secondary_only_checker_def
  two_language_checker_def disabled_checker_def no_language_checker_def
  both_options_config_def defaultConfig_def rich_params_def long_selection_params_def
  empty_link_params_def paste_only_params_def

subsection \<open>The shape of the sections\<close>

lemma render_shape:
  "n \<in> set (renderSuggestionMenuItems xs) \<Longrightarrow>
     (\<exists>s. n = Item s (Some (ReplaceMisspelling s)) None None) \<or>
     n = Item (ascii ''No Spelling Suggestions'') None None (Some False)"
  by (auto simp: renderSuggestionMenuItems_def suggestion_item_def no_suggestions_item_def
      split: if_splits)

lemma render_nonempty: "renderSuggestionMenuItems xs \<noteq> []"
  by (simp add: renderSuggestionMenuItems_def)


lemma spelling_section_shape:
  assumes "spelling_section dictInfo sc params = Inr sp"
  shows "sp = [] \<or> (\<exists>ns. ns \<noteq> [] \<and> sp = ns @ [Separator] \<and>
            (\<forall>n \<in> set ns. (\<exists>s. n = Item s (Some (ReplaceMisspelling s)) None None) \<or>
               n = Item (ascii ''No Spelling Suggestions'') None None (Some False) \<or>
               (\<exists>l ms. n = Submenu l ms)))"
proof (cases "spelling_gate sc params")
  case False
  with assms show ?thesis by (simp add: spelling_section_def)
next
  case True
  then obtain s w where sw: "sc = Some s" "misspelledWord params = Some w"
    by (auto simp: spelling_gate_def truthy_def split: option.splits)
  from assms True sw obtain ns where
    ns: "suggestion_nodes dictInfo (suggestions_of s w) = Inr ns" "sp = ns @ [Separator]"
    by (auto simp: spelling_section_def split: sum.splits)
  have "ns \<noteq> [] \<and> (\<forall>n \<in> set ns. (\<exists>s. n = Item s (Some (ReplaceMisspelling s)) None None) \<or>
               n = Item (ascii ''No Spelling Suggestions'') None None (Some False) \<or>
               (\<exists>l ms. n = Submenu l ms))"
    using ns(1) render_shape render_nonempty
    by (auto simp: suggestion_nodes_def renderSuggestionField_def
        split: option.splits sum.splits)
  with ns(2) show ?thesis by blast
qed

lemma spelling_nodes:
  assumes "spelling_section dictInfo sc params = Inr sp" and "n \<in> set sp"
  shows "(\<exists>s. n = Item s (Some (ReplaceMisspelling s)) None None) \<or>
         n = Item (ascii ''No Spelling Suggestions'') None None (Some False) \<or>
         (\<exists>l ms. n = Submenu l ms) \<or> n = Separator"
proof -
  from spelling_section_shape [OF assms(1)] show ?thesis
  proof
    assume "sp = []" with assms(2) show ?thesis by simp
  next
    assume "\<exists>ns. ns \<noteq> [] \<and> sp = ns @ [Separator] \<and>
            (\<forall>n \<in> set ns. (\<exists>s. n = Item s (Some (ReplaceMisspelling s)) None None) \<or>
               n = Item (ascii ''No Spelling Suggestions'') None None (Some False) \<or>
               (\<exists>l ms. n = Submenu l ms))"
    then obtain ns where ns: "sp = ns @ [Separator]"
      "\<forall>n \<in> set ns. (\<exists>s. n = Item s (Some (ReplaceMisspelling s)) None None) \<or>
               n = Item (ascii ''No Spelling Suggestions'') None None (Some False) \<or>
               (\<exists>l ms. n = Submenu l ms)" by blast
    from assms(2) ns(1) have "n \<in> set ns \<or> n = Separator" by auto
    with ns(2) show ?thesis by blast
  qed
qed

lemma launchMenu_Inr:
  "launchMenu platform dictInfo cfg sc params = Inr t \<Longrightarrow>
   \<exists>spelling. spelling_section dictInfo sc params = Inr spelling \<and>
     t = spelling @ link_section platform params @ search_section sc params @
         undo_section (editFlags params) @ text_editing_section (editFlags params) @
         current_page_section cfg @ wavebox_section params"
  by (auto simp: launchMenu_def split: sum.splits)

lemma search_section_cases:
  "search_section sc params =
     (case selectionText params of
        None \<Rightarrow> []
      | Some sel \<Rightarrow>
          if sel = [] then []
          else if spelling_gate sc params
          then (case misspelledWord params of
                  Some w \<Rightarrow> [add_to_dictionary_item w, search_item sel, Separator]
                | None \<Rightarrow> [search_item sel, Separator])
          else [search_item sel, Separator])"
  by (cases "selectionText params"; cases "misspelledWord params"; simp add: search_section_def)

lemma search_section_ungated:
  "\<not> spelling_gate sc params \<Longrightarrow>
   search_section sc params =
     (case selectionText params of
        None \<Rightarrow> []
      | Some sel \<Rightarrow> if sel = [] then [] else [search_item sel, Separator])"
  by (cases "selectionText params") (simp_all add: search_section_def)

subsection \<open>Which entries a section holds\<close>

lemma not_list_ex_filter: "(\<not> list_ex P xs) = (filter P xs = [])"
  by (simp add: list_ex_iff filter_empty_conv)

lemma spelling_no_link:
  "spelling_section dictInfo sc params = Inr sp \<Longrightarrow> filter is_link_item sp = []"
  by (auto simp: filter_empty_conv dest!: spelling_nodes)

lemma spelling_no_search:
  "spelling_section dictInfo sc params = Inr sp \<Longrightarrow> filter is_search_item sp = []"
  by (auto simp: filter_empty_conv dest!: spelling_nodes)

lemma spelling_no_paste:
  "spelling_section dictInfo sc params = Inr sp \<Longrightarrow> filter is_paste_item sp = []"
  by (auto simp: filter_empty_conv is_paste_item_def dest!: spelling_nodes)

lemma spelling_no_current_page:
  "spelling_section dictInfo sc params = Inr sp \<Longrightarrow> filter is_current_page_item sp = []"
  by (auto simp: filter_empty_conv is_current_page_item_def dest!: spelling_nodes)

lemma link_filters:
  "filter is_link_item (link_section platform params) =
     (case linkURL params of
        None \<Rightarrow> []
      | Some url \<Rightarrow> if url = [] then [] else link_items platform url)"
  "filter is_search_item (link_section platform params) = []"
  "filter is_paste_item (link_section platform params) = []"
  "filter is_current_page_item (link_section platform params) = []"
  "filter is_spelling_node (link_section platform params) = []"
  "filter is_add_to_dictionary (link_section platform params) = []"
  by (simp_all add: link_section_def link_items_def is_paste_item_def is_current_page_item_def
      ascii_def split: option.splits)

lemma search_no_link: "filter is_link_item (search_section sc params) = []"
  by (cases "selectionText params"; cases "misspelledWord params";
      simp add: search_section_cases search_item_def add_to_dictionary_item_def)

lemma search_search:
  "filter is_search_item (search_section sc params) =
     (case selectionText params of
        None \<Rightarrow> []
      | Some sel \<Rightarrow> if sel = [] then [] else [search_item sel])"
  by (cases "selectionText params"; cases "misspelledWord params";
      simp add: search_section_cases search_item_def add_to_dictionary_item_def)

lemma search_no_paste: "filter is_paste_item (search_section sc params) = []"
  by (cases "selectionText params"; cases "misspelledWord params";
      simp add: search_section_cases search_item_def add_to_dictionary_item_def
        is_paste_item_def)

lemma search_no_current_page: "filter is_current_page_item (search_section sc params) = []"
  by (cases "selectionText params"; cases "misspelledWord params";
      simp add: search_section_cases search_item_def add_to_dictionary_item_def
        is_current_page_item_def)

lemma search_no_spelling:
  "\<not> spelling_gate sc params \<Longrightarrow> filter is_spelling_node (search_section sc params) = []"
  "\<not> spelling_gate sc params \<Longrightarrow> filter is_add_to_dictionary (search_section sc params) = []"
  by (simp_all add: search_section_def search_item_def ascii_def split: option.splits)

lemma undo_filters:
  "filter is_link_item (undo_section flags) = []"
  "filter is_search_item (undo_section flags) = []"
  "filter is_paste_item (undo_section flags) = []"
  "filter is_current_page_item (undo_section flags) = []"
  "filter is_spelling_node (undo_section flags) = []"
  "filter is_add_to_dictionary (undo_section flags) = []"
  by (simp_all add: undo_section_def is_paste_item_def is_current_page_item_def ascii_def)

lemma text_editing_filters:
  "filter is_link_item (text_editing_section flags) = []"
  "filter is_search_item (text_editing_section flags) = []"
  "filter is_current_page_item (text_editing_section flags) = []"
  "filter is_spelling_node (text_editing_section flags) = []"
  "filter is_add_to_dictionary (text_editing_section flags) = []"
  by (simp_all add: text_editing_section_def textEditingMenu_def role_item_def
      is_current_page_item_def ascii_def)

lemma current_page_filters:
  "filter is_link_item (current_page_section cfg) = []"
  "filter is_search_item (current_page_section cfg) = []"
  "filter is_paste_item (current_page_section cfg) = []"
  "filter is_spelling_node (current_page_section cfg) = []"
  "filter is_add_to_dictionary (current_page_section cfg) = []"
  by (simp_all add: current_page_section_def copy_current_url_item_def open_page_item_def
      is_paste_item_def ascii_def)

lemma wavebox_filters:
  "filter is_link_item (wavebox_section params) = []"
  "filter is_search_item (wavebox_section params) = []"
  "filter is_paste_item (wavebox_section params) = []"
  "filter is_current_page_item (wavebox_section params) = []"
  "filter is_spelling_node (wavebox_section params) = []"
  "filter is_add_to_dictionary (wavebox_section params) = []"
  by (simp_all add: wavebox_section_def is_paste_item_def is_current_page_item_def ascii_def)

subsection \<open>Separators\<close>

lemma adjacent_separators_body:
  "list_all (\<lambda>n. n \<noteq> Separator) b \<Longrightarrow> t \<noteq> [] \<Longrightarrow> hd t \<noteq> Separator \<Longrightarrow>
   \<not> adjacent_separators t \<Longrightarrow> \<not> adjacent_separators (b @ Separator # t)"
proof (induction b)
  case Nil
  then show ?case by (cases t) simp_all
next
  case (Cons a b)
  then show ?case by (cases b) simp_all
qed

lemma closed_section_cases:
  "closed_section s \<Longrightarrow> s = [] \<or> (\<exists>b. b \<noteq> [] \<and> list_all (\<lambda>n. n \<noteq> Separator) b \<and> s = b @ [Separator])"
  unfolding closed_section_def
  by (metis append_butlast_last_id butlast.simps(1))

lemma closed_sectionI:
  "b \<noteq> [] \<Longrightarrow> list_all (\<lambda>n. n \<noteq> Separator) b \<Longrightarrow> closed_section (b @ [Separator])"
  by (simp add: closed_section_def)

lemma closed_section_append:
  assumes "closed_section s" and "t \<noteq> []" and "hd t \<noteq> Separator"
    and "\<not> adjacent_separators t"
  shows "s @ t \<noteq> [] \<and> hd (s @ t) \<noteq> Separator \<and> \<not> adjacent_separators (s @ t) \<and>
         last (s @ t) = last t"
proof -
  from closed_section_cases [OF assms(1)] show ?thesis
  proof
    assume "s = []"
    with assms show ?thesis by simp
  next
    assume "\<exists>b. b \<noteq> [] \<and> list_all (\<lambda>n. n \<noteq> Separator) b \<and> s = b @ [Separator]"
    then obtain b where b: "b \<noteq> []" "list_all (\<lambda>n. n \<noteq> Separator) b" "s = b @ [Separator]"
      by blast
    have "\<not> adjacent_separators (b @ Separator # t)"
      using adjacent_separators_body [OF b(2) assms(2,3,4)] .
    moreover have "hd (s @ t) \<noteq> Separator"
      using b by (cases b) simp_all
    ultimately show ?thesis using b assms(2) by simp
  qed
qed

lemma well_separated_append:
  "closed_section s \<Longrightarrow> well_separated t \<Longrightarrow> well_separated (s @ t)"
  using closed_section_append [of s t] by (simp add: well_separated_def)

lemma closed_spelling:
  assumes "spelling_section dictInfo sc params = Inr sp"
  shows "closed_section sp"
proof -
  from spelling_section_shape [OF assms] show ?thesis
  proof
    assume "sp = []" then show ?thesis by (simp add: closed_section_def)
  next
    assume "\<exists>ns. ns \<noteq> [] \<and> sp = ns @ [Separator] \<and>
            (\<forall>n \<in> set ns. (\<exists>s. n = Item s (Some (ReplaceMisspelling s)) None None) \<or>
               n = Item (ascii ''No Spelling Suggestions'') None None (Some False) \<or>
               (\<exists>l ms. n = Submenu l ms))"
    then obtain ns where ns: "ns \<noteq> []" "sp = ns @ [Separator]"
      "\<forall>n \<in> set ns. (\<exists>s. n = Item s (Some (ReplaceMisspelling s)) None None) \<or>
               n = Item (ascii ''No Spelling Suggestions'') None None (Some False) \<or>
               (\<exists>l ms. n = Submenu l ms)" by blast
    from ns(3) have "list_all (\<lambda>n. n \<noteq> Separator) ns"
      by (auto simp: list_all_iff)
    with ns(1,2) show ?thesis by (simp add: closed_sectionI)
  qed
qed

lemma closed_link: "closed_section (link_section platform params)"
  by (simp add: closed_section_def link_section_def link_items_def split: option.splits)

lemma closed_search: "closed_section (search_section sc params)"
  by (simp add: closed_section_def search_section_def search_item_def
      add_to_dictionary_item_def split: option.splits)

lemma closed_undo: "closed_section (undo_section flags)"
  by (simp add: closed_section_def undo_section_def)

lemma textEditingMenu_no_separator:
  "list_all (\<lambda>n. n \<noteq> Separator) (textEditingMenu flags)"
  by (simp add: textEditingMenu_def role_item_def)

lemma closed_text_editing: "closed_section (text_editing_section flags)"
  using textEditingMenu_no_separator [of flags]
  by (simp add: closed_section_def text_editing_section_def)

lemma closed_current_page: "closed_section (current_page_section cfg)"
  by (simp add: closed_section_def current_page_section_def copy_current_url_item_def
      open_page_item_def)

lemma closed_section_last:
  "closed_section s \<Longrightarrow> pre = [] \<or> last pre = Separator \<Longrightarrow>
   pre @ s = [] \<or> last (pre @ s) = Separator"
  by (cases "s = []") (simp_all add: closed_section_def)

subsection \<open>The edit flags\<close>

lemma spelling_section_editFlags:
  "spelling_section dictInfo sc (params\<lparr>editFlags := e\<rparr>) = spelling_section dictInfo sc params"
  by (cases sc; cases "misspelledWord params";
      simp add: spelling_section_def spelling_gate_def)

lemma link_section_editFlags:
  "link_section platform (params\<lparr>editFlags := e\<rparr>) = link_section platform params"
  by (simp add: link_section_def)

lemma search_section_editFlags:
  "search_section sc (params\<lparr>editFlags := e\<rparr>) = search_section sc params"
  by (cases "selectionText params"; cases "misspelledWord params";
      simp add: search_section_def spelling_gate_def)

lemma undo_section_canPaste:
  "undo_section (f\<lparr>canPaste := b\<rparr>) = undo_section f"
  by (simp add: undo_section_def)

lemma wavebox_section_editFlags:
  "wavebox_section (params\<lparr>editFlags := e\<rparr>) = wavebox_section params"
  by (simp add: wavebox_section_def)

lemma text_editing_paste_split:
  assumes "canPaste f"
  shows "\<exists>a b.
     text_editing_section f =
       a @ [Item (ascii ''Paste'') None (Some (ascii ''paste'')) None,
            Item (ascii ''Paste and match style'') None (Some (ascii ''pasteandmatchstyle'')) None] @
       (if canCut f \<or> canCopy f \<or> canSelectAll f then [] else [Separator]) @ b \<and>
     text_editing_section (f\<lparr>canPaste := False\<rparr>) = a @ b \<and>
     filter is_paste_item a = [] \<and> filter is_paste_item b = []"
  apply (rule exI [of _ "(if canCut f then [role_item ''Cut'' ''cut''] else []) @
                         (if canCopy f then [role_item ''Copy'' ''copy''] else [])"])
  apply (rule exI [of _ "(if canSelectAll f then [role_item ''Select all'' ''selectall''] else []) @
                         (if canCut f \<or> canCopy f \<or> canSelectAll f then [Separator] else [])"])
  using assms
  apply (simp add: text_editing_section_def textEditingMenu_def role_item_def is_paste_item_def
      ascii_def)
  done

section \<open>The claims\<close>

subsection \<open>The fallback of the spelling section\<close>

text \<open>
  When the spelling section is due, \<^verbatim>\<open>launchMenu\<close> raises exactly when \<^verbatim>\<open>primary\<close> is null,
  or its list of suggestions is missing, or \<^verbatim>\<open>secondary\<close> is present without a list.
\<close>

lemma spelling_fallback_raises_iff:
  assumes "spelling_gate (Some s) params" and "misspelledWord params = Some w"
  shows "(launchMenu platform dictInfo cfg (Some s) params = Inl TypeError) =
     (case primary (suggestions_of s w) of
        None \<Rightarrow> True
      | Some p \<Rightarrow>
          suggestions p = None \<or>
          (case secondary (suggestions_of s w) of
             None \<Rightarrow> False
           | Some se \<Rightarrow> suggestions se = None))"
  using assms
  by (cases "primary (suggestions_of s w)"; cases "secondary (suggestions_of s w)")
     (auto simp: launchMenu_def spelling_section_def suggestion_nodes_def
        renderSuggestionField_def split: option.splits sum.splits)

text \<open>
  Claim C1. When the spelling section is due and the spellchecker does not return both
  languages, the menu is to be built from whichever list of suggestions exists, or from the
  empty list, and nothing is to be raised. The code raises instead: with \<^verbatim>\<open>primary\<close> null,
  line 79 reads the property \<^verbatim>\<open>suggestions\<close> of null. The theorem evaluates \<^verbatim>\<open>launchMenu\<close>
  for the misspelled word "teh" with a spellchecker that returns the secondary language
  only, and with one that returns no language: both calls end in a \<^verbatim>\<open>TypeError\<close>.
\<close>

theorem secondary_only_raises:
  "spelling_gate (Some secondary_only_checker) teh_params \<and>
   suggestions_of secondary_only_checker (ascii ''teh'') =
     \<lparr>primary = None,
      secondary = Some \<lparr>language = ascii ''en'',
                         suggestions = Some [ascii ''the'', ascii ''ten'']\<rparr>\<rparr> \<and>
   launchMenu ''darwin'' no_dictInfo defaultConfig (Some secondary_only_checker) teh_params =
     Inl TypeError \<and>
   spelling_gate (Some no_language_checker) teh_params \<and>
   suggestions_of no_language_checker (ascii ''teh'') = \<lparr>primary = None, secondary = None\<rparr> \<and>
   launchMenu ''darwin'' no_dictInfo defaultConfig (Some no_language_checker) teh_params =
     Inl TypeError"
  by (simp add: launchMenu_def section_defs input_defs no_language_checker_def ascii_def)

subsection \<open>The separators of the template\<close>

text \<open>
  Claim C2. Whatever the context, the configuration and the spellchecker, the template that
  \<^verbatim>\<open>launchMenu\<close> produces has no two separators next to each other and neither starts nor
  ends with a separator. It is the concatenation of the seven sections; each of the first
  six is empty or consists of at least one entry that is not a separator followed by one
  separator, and the last one, the application section, holds no separator.
\<close>

theorem template_separators:
  assumes "launchMenu platform dictInfo cfg sc params = Inr t"
  shows "\<not> adjacent_separators t \<and> t \<noteq> [] \<and> hd t \<noteq> Separator \<and> last t \<noteq> Separator \<and>
    (\<exists>spelling. spelling_section dictInfo sc params = Inr spelling \<and>
       t = spelling @ link_section platform params @ search_section sc params @
           undo_section (editFlags params) @ text_editing_section (editFlags params) @
           current_page_section cfg @ wavebox_section params \<and>
       closed_section spelling \<and>
       closed_section (link_section platform params) \<and>
       closed_section (search_section sc params) \<and>
       closed_section (undo_section (editFlags params)) \<and>
       closed_section (text_editing_section (editFlags params)) \<and>
       closed_section (current_page_section cfg) \<and>
       list_all (\<lambda>n. n \<noteq> Separator) (wavebox_section params))"
proof -
  from launchMenu_Inr [OF assms] obtain spelling where
    sp: "spelling_section dictInfo sc params = Inr spelling" and
    t: "t = spelling @ link_section platform params @ search_section sc params @
         undo_section (editFlags params) @ text_editing_section (editFlags params) @
         current_page_section cfg @ wavebox_section params" by blast
  have "well_separated (wavebox_section params)"
    by (simp add: well_separated_def wavebox_section_def)
  then have "well_separated (current_page_section cfg @ wavebox_section params)"
    by (rule well_separated_append [OF closed_current_page])
  then have "well_separated (text_editing_section (editFlags params) @
      current_page_section cfg @ wavebox_section params)"
    by (rule well_separated_append [OF closed_text_editing])
  then have "well_separated (undo_section (editFlags params) @
      text_editing_section (editFlags params) @
      current_page_section cfg @ wavebox_section params)"
    by (rule well_separated_append [OF closed_undo])
  then have "well_separated (search_section sc params @ undo_section (editFlags params) @
      text_editing_section (editFlags params) @
      current_page_section cfg @ wavebox_section params)"
    by (rule well_separated_append [OF closed_search])
  then have "well_separated (link_section platform params @ search_section sc params @
      undo_section (editFlags params) @ text_editing_section (editFlags params) @
      current_page_section cfg @ wavebox_section params)"
    by (rule well_separated_append [OF closed_link])
  then have "well_separated t"
    unfolding t by (rule well_separated_append [OF closed_spelling [OF sp]])
  then have sep: "\<not> adjacent_separators t" "t \<noteq> []" "hd t \<noteq> Separator"
      "last t \<noteq> Separator"
    by (simp_all add: well_separated_def)
  have w: "list_all (\<lambda>n. n \<noteq> Separator) (wavebox_section params)"
    by (simp add: wavebox_section_def)
  show ?thesis
    apply (intro conjI exI [of _ spelling])
                apply (rule sep(1))
               apply (rule sep(2))
              apply (rule sep(3))
             apply (rule sep(4))
            apply (rule sp)
           apply (rule t)
          apply (rule closed_spelling [OF sp])
         apply (rule closed_link)
        apply (rule closed_search)
       apply (rule closed_undo)
      apply (rule closed_text_editing)
     apply (rule closed_current_page)
    apply (rule w)
    done
qed

theorem template_separators_witness:
  "\<exists>t. launchMenu ''darwin'' no_dictInfo both_options_config (Some two_language_checker)
          rich_params = Inr t \<and>
       \<not> adjacent_separators t \<and> t \<noteq> [] \<and> hd t \<noteq> Separator \<and> last t \<noteq> Separator"
proof -
  have "\<exists>t. launchMenu ''darwin'' no_dictInfo both_options_config (Some two_language_checker)
          rich_params = Inr t"
    by (simp add: launchMenu_def section_defs input_defs rich_params_def ascii_def)
  then obtain t where h: "launchMenu ''darwin'' no_dictInfo both_options_config
      (Some two_language_checker) rich_params = Inr t" ..
  from template_separators [OF h] h show ?thesis by blast
qed

subsection \<open>The search item\<close>

text \<open>
  Claim C3. With a selection that is not empty, the template holds exactly one search
  item. For a selection of at least 50 code units its label shows the first 47 code units
  of the selection followed by one ellipsis, 48 code units in all; for a shorter selection
  the label shows the selection as it is. In both cases the closure of the item holds the
  whole selection, and activating it opens \<^verbatim>\<open>https://google.com/search?q=\<close> followed by
  the percent-encoding of the whole selection.
\<close>

theorem search_label_truncated:
  assumes "selectionText params = Some sel" and "sel \<noteq> []"
    and "launchMenu platform dictInfo cfg sc params = Inr t"
  shows "filter is_search_item t =
      [Item (ascii ''Search Google for '' @ [ldquo] @
               (if 50 \<le> length sel then take 47 sel @ [ellipsis] else sel) @ [rdquo])
            (Some (SearchGoogle sel)) None None] \<and>
    length (if 50 \<le> length sel then take 47 sel @ [ellipsis] else sel) =
      (if 50 \<le> length sel then 48 else length sel) \<and>
    run_click env (SearchGoogle sel) =
      (case encodeURIComponent env sel of
         None \<Rightarrow> Inl URIError
       | Some q \<Rightarrow> Inr (ShellOpenExternal (ascii ''https://google.com/search?q='' @ q) True))"
proof -
  from launchMenu_Inr [OF assms(3)] obtain spelling where
    sp: "spelling_section dictInfo sc params = Inr spelling" and
    t: "t = spelling @ link_section platform params @ search_section sc params @
         undo_section (editFlags params) @ text_editing_section (editFlags params) @
         current_page_section cfg @ wavebox_section params" by blast
  have "filter is_search_item t = [search_item sel]"
    unfolding t
    by (simp add: spelling_no_search [OF sp] link_filters search_search undo_filters
        text_editing_filters current_page_filters wavebox_filters assms(1,2))
  then show ?thesis
    by (simp add: search_item_def displayText_def)
qed

theorem search_label_truncated_witness:
  "\<exists>t. selectionText long_selection_params = Some long_selection \<and> long_selection \<noteq> [] \<and>
       50 \<le> length long_selection \<and>
       launchMenu ''linux'' no_dictInfo defaultConfig None long_selection_params = Inr t \<and>
       filter is_search_item t =
         [Item (ascii ''Search Google for '' @ [ldquo] @ replicate 47 0x61 @ [ellipsis] @ [rdquo])
               (Some (SearchGoogle long_selection)) None None] \<and>
       run_click alnum_env (SearchGoogle long_selection) =
         Inr (ShellOpenExternal (ascii ''https://google.com/search?q='' @ long_selection) True)"
proof -
  have s: "selectionText long_selection_params = Some long_selection"
    by (simp add: long_selection_params_def)
  have n: "long_selection \<noteq> []" by (simp add: long_selection_def)
  have "\<exists>t. launchMenu ''linux'' no_dictInfo defaultConfig None long_selection_params = Inr t"
    by (simp add: launchMenu_def spelling_section_def spelling_gate_def)
  then obtain t where h: "launchMenu ''linux'' no_dictInfo defaultConfig None
      long_selection_params = Inr t" ..
  from search_label_truncated [OF s n h, of alnum_env] s n h show ?thesis
    by (simp add: long_selection_def alnum_env_def is_alnum_def list_all_iff)
qed

subsection \<open>Rendering suggestions\<close>

text \<open>
  Claim C4. \<^verbatim>\<open>_renderSuggestionMenuItems_\<close> is defined on every list of strings. For the
  empty list it returns exactly one entry, the disabled item labelled
  "No Spelling Suggestions"; for a list that is not empty it returns one item for each
  suggestion, in the order of the list, each enabled, labelled with its suggestion and
  bound to the call \<^verbatim>\<open>webContents.replaceMisspelling\<close> on that suggestion.
\<close>

theorem render_suggestions_total:
  "renderSuggestionMenuItems xs =
     (if xs = [] then [Item (ascii ''No Spelling Suggestions'') None None (Some False)]
      else map (\<lambda>s. Item s (Some (ReplaceMisspelling s)) None None) xs)
   \<and> length (renderSuggestionMenuItems xs) = (if xs = [] then 1 else length xs)
   \<and> list_all is_item (renderSuggestionMenuItems xs)
   \<and> list_all is_enabled (renderSuggestionMenuItems xs) = (xs \<noteq> [])
   \<and> map label_of (renderSuggestionMenuItems xs) =
       (if xs = [] then [Some (ascii ''No Spelling Suggestions'')] else map Some xs)
   \<and> map click_of (renderSuggestionMenuItems xs) =
       (if xs = [] then [None] else map (\<lambda>s. Some (ReplaceMisspelling s)) xs)"
  by (simp add: renderSuggestionMenuItems_def suggestion_item_def no_suggestions_item_def
      list_all_iff comp_def)

subsection \<open>A scenario with one language\<close>

text \<open>
  Claim C5. For an editable context with the misspelled word "teh", no selection, no link,
  \<^verbatim>\<open>canUndo\<close> alone among the edit flags, the default configuration and a spellchecker that
  returns only the primary language "en" with the suggestions "the" and "ten", the template
  is: the items "the" and "ten" directly in the menu, a separator, Undo (enabled), Redo
  (disabled), a separator, "Wavebox Settings" and "Inspect".
\<close>

theorem scenario_primary_only:
  "launchMenu platform dictInfo defaultConfig
     (Some \<lparr>hasSpellchecker = True,
            suggestions_of = (\<lambda>w. \<lparr>primary = Some \<lparr>language = ascii ''en'',
               suggestions = Some [ascii ''the'', ascii ''ten'']\<rparr>, secondary = None\<rparr>)\<rparr>)
     \<lparr>isEditable = True, misspelledWord = Some (ascii ''teh''), selectionText = None,
      linkURL = None,
      editFlags = \<lparr>canUndo = True, canRedo = False, canCut = False, canCopy = False,
                   canPaste = False, canSelectAll = False\<rparr>,
      pos_x = px, pos_y = py\<rparr> =
   Inr [Item (ascii ''the'') (Some (ReplaceMisspelling (ascii ''the''))) None None,
        Item (ascii ''ten'') (Some (ReplaceMisspelling (ascii ''ten''))) None None,
        Separator,
        Item (ascii ''Undo'') None (Some (ascii ''undo'')) (Some True),
        Item (ascii ''Redo'') None (Some (ascii ''redo'')) (Some False),
        Separator,
        Item (ascii ''Wavebox Settings'') (Some SendOpenSettings) None None,
        Item (ascii ''Inspect'') (Some (InspectElement px py)) None None]"
  by (simp add: launchMenu_def section_defs defaultConfig_def ascii_def)

subsection \<open>A spellchecker without dictionaries\<close>

text \<open>
  Claim C6. A spellchecker whose \<^verbatim>\<open>hasSpellchecker\<close> is false gives the same result as no
  spellchecker, for every context and configuration: the condition of lines 67 and 106 is
  false in both cases, so the spelling section is empty and the search section is the same.
\<close>

theorem disabled_spellchecker_as_absent:
  assumes "\<not> hasSpellchecker s"
  shows "launchMenu platform dictInfo cfg (Some s) params =
           launchMenu platform dictInfo cfg None params \<and>
         \<not> spelling_gate (Some s) params \<and> \<not> spelling_gate None params \<and>
         spelling_section dictInfo (Some s) params = Inr [] \<and>
         search_section (Some s) params = search_section None params"
proof -
  have g: "\<not> spelling_gate (Some s) params" "\<not> spelling_gate None params"
    using assms by (simp_all add: spelling_gate_def)
  have sp: "spelling_section dictInfo (Some s) params = Inr []"
    "spelling_section dictInfo None params = Inr []"
    using g by (simp_all add: spelling_section_def)
  have se: "search_section (Some s) params = search_section None params"
    by (simp add: search_section_ungated [OF g(1)] search_section_ungated [OF g(2)])
  have "launchMenu platform dictInfo cfg (Some s) params =
           launchMenu platform dictInfo cfg None params"
    by (simp add: launchMenu_def sp se)
  with g sp(1) se show ?thesis by blast
qed

theorem disabled_spellchecker_as_absent_witness:
  "\<not> hasSpellchecker disabled_checker \<and>
   launchMenu ''darwin'' no_dictInfo both_options_config (Some disabled_checker) rich_params =
     launchMenu ''darwin'' no_dictInfo both_options_config None rich_params"
proof -
  have h: "\<not> hasSpellchecker disabled_checker"
    by (simp add: disabled_checker_def)
  from disabled_spellchecker_as_absent [OF h] h show ?thesis by blast
qed

subsection \<open>The link section\<close>

text \<open>
  Claim C7, as amended. In a template that \<^verbatim>\<open>launchMenu\<close> produces, the link items are
  present if and only if \<^verbatim>\<open>linkURL\<close> is neither null nor the empty string; they are then
  "Open Link", on the platform \<^verbatim>\<open>darwin\<close> also "Open Link in Background", and
  "Copy link Address", in this order, and nothing else in the template is a link item.
\<close>

theorem link_items_iff_truthy:
  assumes "launchMenu platform dictInfo cfg sc params = Inr t"
  shows "filter is_link_item t =
      (case linkURL params of
         None \<Rightarrow> []
       | Some url \<Rightarrow>
           if url = [] then []
           else [Item (ascii ''Open Link'') (Some (OpenExternal url)) None None] @
                (if platform = ''darwin''
                 then [Item (ascii ''Open Link in Background'')
                         (Some (OpenExternalNoActivate url)) None None]
                 else []) @
                [Item (ascii ''Copy link Address'') (Some (ClipboardWriteText url)) None None]) \<and>
    list_ex is_link_item t = truthy (linkURL params)"
proof -
  from launchMenu_Inr [OF assms] obtain spelling where
    sp: "spelling_section dictInfo sc params = Inr spelling" and
    t: "t = spelling @ link_section platform params @ search_section sc params @
         undo_section (editFlags params) @ text_editing_section (editFlags params) @
         current_page_section cfg @ wavebox_section params" by blast
  have f: "filter is_link_item t =
      (case linkURL params of
         None \<Rightarrow> []
       | Some url \<Rightarrow> if url = [] then [] else link_items platform url)"
    unfolding t
    by (simp add: spelling_no_link [OF sp] link_filters search_no_link undo_filters
        text_editing_filters current_page_filters wavebox_filters)
  have "(filter is_link_item t \<noteq> []) = truthy (linkURL params)"
    unfolding f by (cases "linkURL params") (simp_all add: truthy_def link_items_def)
  then have "list_ex is_link_item t = truthy (linkURL params)"
    using not_list_ex_filter [of is_link_item t] by blast
  moreover have "filter is_link_item t =
      (case linkURL params of
         None \<Rightarrow> []
       | Some url \<Rightarrow>
           if url = [] then []
           else [Item (ascii ''Open Link'') (Some (OpenExternal url)) None None] @
                (if platform = ''darwin''
                 then [Item (ascii ''Open Link in Background'')
                         (Some (OpenExternalNoActivate url)) None None]
                 else []) @
                [Item (ascii ''Copy link Address'') (Some (ClipboardWriteText url)) None None])"
    unfolding f by (cases "linkURL params") (simp_all add: link_items_def)
  ultimately show ?thesis by (rule conjI [rotated])
qed

theorem link_items_iff_truthy_witness:
  "\<exists>t. launchMenu ''darwin'' no_dictInfo both_options_config (Some two_language_checker)
          rich_params = Inr t \<and>
       truthy (linkURL rich_params) \<and> list_ex is_link_item t \<and>
       filter is_link_item t =
         [Item (ascii ''Open Link'') (Some (OpenExternal (ascii ''https://wavebox.io/''))) None None,
          Item (ascii ''Open Link in Background'')
            (Some (OpenExternalNoActivate (ascii ''https://wavebox.io/''))) None None,
          Item (ascii ''Copy link Address'')
            (Some (ClipboardWriteText (ascii ''https://wavebox.io/''))) None None]"
proof -
  have "\<exists>t. launchMenu ''darwin'' no_dictInfo both_options_config (Some two_language_checker)
          rich_params = Inr t"
    by (simp add: launchMenu_def section_defs input_defs rich_params_def ascii_def)
  then obtain t where h: "launchMenu ''darwin'' no_dictInfo both_options_config
      (Some two_language_checker) rich_params = Inr t" ..
  have u: "linkURL rich_params = Some (ascii ''https://wavebox.io/'')"
    by (simp add: rich_params_def teh_params_def)
  have v: "ascii ''https://wavebox.io/'' \<noteq> []" by (simp add: ascii_def)
  from link_items_iff_truthy [OF h] h u v show ?thesis
    by (simp add: truthy_def)
qed

text \<open>
  The claim as stated, with the condition \<^verbatim>\<open>linkURL != null\<close>, fails for the empty string:
  it is not null, and line 86 takes it for false.
\<close>

theorem empty_link_counterexample:
  "linkURL empty_link_params \<noteq> None \<and>
   launchMenu ''darwin'' no_dictInfo defaultConfig None empty_link_params =
     Inr [Item (ascii ''Wavebox Settings'') (Some SendOpenSettings) None None,
          Item (ascii ''Inspect'') (Some (InspectElement 10 20)) None None] \<and>
   \<not> list_ex is_link_item
       [Item (ascii ''Wavebox Settings'') (Some SendOpenSettings) None None,
        Item (ascii ''Inspect'') (Some (InspectElement 10 20)) None None]"
  by (simp add: launchMenu_def section_defs input_defs empty_link_params_def)

subsection \<open>The paste items\<close>

text \<open>
  Claim C8, as amended. When \<^verbatim>\<open>canPaste\<close> goes from true to false and nothing else changes,
  the two items "Paste" and "Paste and match style" leave the template; with them goes the
  separator that closes the text editing section when none of \<^verbatim>\<open>canCut\<close>, \<^verbatim>\<open>canCopy\<close> and
  \<^verbatim>\<open>canSelectAll\<close> holds. Everything before and after stays as it is, and holds no paste
  item.
\<close>

theorem paste_toggle:
  assumes "canPaste (editFlags params)"
    and "launchMenu platform dictInfo cfg sc params = Inr t"
  shows "\<exists>pre post.
     t = pre @
         [Item (ascii ''Paste'') None (Some (ascii ''paste'')) None,
          Item (ascii ''Paste and match style'') None (Some (ascii ''pasteandmatchstyle'')) None] @
         (if canCut (editFlags params) \<or> canCopy (editFlags params) \<or>
             canSelectAll (editFlags params)
          then [] else [Separator]) @ post \<and>
     launchMenu platform dictInfo cfg sc
         (params\<lparr>editFlags := (editFlags params)\<lparr>canPaste := False\<rparr>\<rparr>) = Inr (pre @ post) \<and>
     \<not> list_ex is_paste_item pre \<and> \<not> list_ex is_paste_item post"
proof -
  from launchMenu_Inr [OF assms(2)] obtain spelling where
    sp: "spelling_section dictInfo sc params = Inr spelling" and
    t: "t = spelling @ link_section platform params @ search_section sc params @
         undo_section (editFlags params) @ text_editing_section (editFlags params) @
         current_page_section cfg @ wavebox_section params" by blast
  from text_editing_paste_split [OF assms(1)] obtain a b where
    te: "text_editing_section (editFlags params) =
       a @ [Item (ascii ''Paste'') None (Some (ascii ''paste'')) None,
            Item (ascii ''Paste and match style'') None (Some (ascii ''pasteandmatchstyle'')) None] @
       (if canCut (editFlags params) \<or> canCopy (editFlags params) \<or>
           canSelectAll (editFlags params) then [] else [Separator]) @ b" and
    te': "text_editing_section ((editFlags params)\<lparr>canPaste := False\<rparr>) = a @ b" and
    na: "filter is_paste_item a = []" and nb: "filter is_paste_item b = []"
    by blast
  let ?pre = "spelling @ link_section platform params @ search_section sc params @
         undo_section (editFlags params) @ a"
  let ?post = "b @ current_page_section cfg @ wavebox_section params"
  have 1: "t = ?pre @
         [Item (ascii ''Paste'') None (Some (ascii ''paste'')) None,
          Item (ascii ''Paste and match style'') None (Some (ascii ''pasteandmatchstyle'')) None] @
         (if canCut (editFlags params) \<or> canCopy (editFlags params) \<or>
             canSelectAll (editFlags params)
          then [] else [Separator]) @ ?post"
    unfolding t te by simp
  have 2: "launchMenu platform dictInfo cfg sc
         (params\<lparr>editFlags := (editFlags params)\<lparr>canPaste := False\<rparr>\<rparr>) = Inr (?pre @ ?post)"
    by (simp add: launchMenu_def spelling_section_editFlags link_section_editFlags
        search_section_editFlags undo_section_canPaste wavebox_section_editFlags sp te')
  have "filter is_paste_item ?pre = []"
    by (simp add: spelling_no_paste [OF sp] link_filters search_no_paste undo_filters na)
  then have 3: "\<not> list_ex is_paste_item ?pre"
    by (simp only: not_list_ex_filter)
  have "filter is_paste_item ?post = []"
    by (simp add: current_page_filters wavebox_filters nb)
  then have 4: "\<not> list_ex is_paste_item ?post"
    by (simp only: not_list_ex_filter)
  show ?thesis
    apply (rule exI [of _ ?pre])
    apply (rule exI [of _ ?post])
    apply (intro conjI)
       apply (rule 1)
      apply (rule 2)
     apply (rule 3)
    apply (rule 4)
    done
qed

theorem paste_toggle_witness:
  "\<exists>t pre post. canPaste (editFlags rich_params) \<and>
     launchMenu ''darwin'' no_dictInfo both_options_config (Some two_language_checker)
       rich_params = Inr t \<and>
     t = pre @
         [Item (ascii ''Paste'') None (Some (ascii ''paste'')) None,
          Item (ascii ''Paste and match style'') None (Some (ascii ''pasteandmatchstyle'')) None] @
         post \<and>
     launchMenu ''darwin'' no_dictInfo both_options_config (Some two_language_checker)
         (rich_params\<lparr>editFlags := (editFlags rich_params)\<lparr>canPaste := False\<rparr>\<rparr>) =
       Inr (pre @ post)"
proof -
  have c: "canPaste (editFlags rich_params)"
    and d: "canCopy (editFlags rich_params)"
    by (simp_all add: rich_params_def teh_params_def no_edit_flags_def)
  have "\<exists>t. launchMenu ''darwin'' no_dictInfo both_options_config (Some two_language_checker)
          rich_params = Inr t"
    by (simp add: launchMenu_def section_defs input_defs rich_params_def ascii_def)
  then obtain t where h: "launchMenu ''darwin'' no_dictInfo both_options_config
      (Some two_language_checker) rich_params = Inr t" ..
  from paste_toggle [OF c h] c d h show ?thesis by auto
qed

text \<open>
  The claim as stated fails when \<^verbatim>\<open>canPaste\<close> is the only edit flag: removing the two items
  alone would leave a separator at the head of the template, and the code removes it too.
\<close>

theorem paste_only_counterexample:
  "canPaste (editFlags paste_only_params) \<and>
   launchMenu ''linux'' no_dictInfo defaultConfig None paste_only_params =
     Inr [Item (ascii ''Paste'') None (Some (ascii ''paste'')) None,
          Item (ascii ''Paste and match style'') None (Some (ascii ''pasteandmatchstyle'')) None,
          Separator,
          Item (ascii ''Wavebox Settings'') (Some SendOpenSettings) None None,
          Item (ascii ''Inspect'') (Some (InspectElement 10 20)) None None] \<and>
   launchMenu ''linux'' no_dictInfo defaultConfig None
       (paste_only_params\<lparr>editFlags := (editFlags paste_only_params)\<lparr>canPaste := False\<rparr>\<rparr>) =
     Inr [Item (ascii ''Wavebox Settings'') (Some SendOpenSettings) None None,
          Item (ascii ''Inspect'') (Some (InspectElement 10 20)) None None] \<and>
   filter (\<lambda>n. \<not> is_paste_item n)
     [Item (ascii ''Paste'') None (Some (ascii ''paste'')) None,
      Item (ascii ''Paste and match style'') None (Some (ascii ''pasteandmatchstyle'')) None,
      Separator,
      Item (ascii ''Wavebox Settings'') (Some SendOpenSettings) None None,
      Item (ascii ''Inspect'') (Some (InspectElement 10 20)) None None] =
     [Separator,
      Item (ascii ''Wavebox Settings'') (Some SendOpenSettings) None None,
      Item (ascii ''Inspect'') (Some (InspectElement 10 20)) None None] \<and>
   [Item (ascii ''Wavebox Settings'') (Some SendOpenSettings) None None,
    Item (ascii ''Inspect'') (Some (InspectElement 10 20)) None None] \<noteq>
   [Separator,
    Item (ascii ''Wavebox Settings'') (Some SendOpenSettings) None None,
    Item (ascii ''Inspect'') (Some (InspectElement 10 20)) None None]"
  by (simp add: launchMenu_def section_defs input_defs paste_only_params_def is_paste_item_def
      ascii_def)

subsection \<open>An empty misspelled word\<close>

text \<open>
  Claim C9. A misspelled word that is the empty string is treated as a missing one: the
  result is the same, the spelling section is empty, and the template holds neither an
  entry of the spelling section nor the item "Add to Dictionary".
\<close>

theorem empty_misspelled_word:
  "launchMenu platform dictInfo cfg sc (params\<lparr>misspelledWord := Some []\<rparr>) =
     launchMenu platform dictInfo cfg sc (params\<lparr>misspelledWord := None\<rparr>) \<and>
   spelling_section dictInfo sc (params\<lparr>misspelledWord := Some []\<rparr>) = Inr [] \<and>
   (\<exists>t. launchMenu platform dictInfo cfg sc (params\<lparr>misspelledWord := Some []\<rparr>) = Inr t \<and>
        \<not> list_ex is_spelling_node t \<and> \<not> list_ex is_add_to_dictionary t)"
proof -
  let ?p = "params\<lparr>misspelledWord := Some []\<rparr>"
  let ?q = "params\<lparr>misspelledWord := None\<rparr>"
  have g: "\<not> spelling_gate sc ?p" "\<not> spelling_gate sc ?q"
    by (simp_all add: spelling_gate_def truthy_def)
  have sp: "spelling_section dictInfo sc ?p = Inr []" "spelling_section dictInfo sc ?q = Inr []"
    using g by (simp_all add: spelling_section_def)
  have eq: "launchMenu platform dictInfo cfg sc ?p = launchMenu platform dictInfo cfg sc ?q"
    by (simp add: launchMenu_def sp search_section_ungated [OF g(1)]
        search_section_ungated [OF g(2)] link_section_def wavebox_section_def)
  let ?t = "link_section platform ?p @ search_section sc ?p @
         undo_section (editFlags ?p) @ text_editing_section (editFlags ?p) @
         current_page_section cfg @ wavebox_section ?p"
  have t: "launchMenu platform dictInfo cfg sc ?p = Inr ?t"
    using sp by (simp add: launchMenu_def)
  have "filter is_spelling_node ?t = []"
    by (simp add: link_filters search_no_spelling [OF g(1)] undo_filters text_editing_filters
        current_page_filters wavebox_filters)
  moreover have "filter is_add_to_dictionary ?t = []"
    by (simp add: link_filters search_no_spelling [OF g(1)] undo_filters text_editing_filters
        current_page_filters wavebox_filters)
  ultimately have "\<not> list_ex is_spelling_node ?t \<and> \<not> list_ex is_add_to_dictionary ?t"
    by (simp only: not_list_ex_filter)
  with t eq sp(1) show ?thesis by blast
qed

subsection \<open>The current page section\<close>

text \<open>
  Claim C10. With both options of the configuration set, the template ends with
  "Copy current URL", "Open page in Browser", one separator, and the two items of the
  application section. What comes before holds no item of the current page section, and is
  empty or ends with the separator of an earlier section.
\<close>

theorem current_page_both_options:
  assumes "copyCurrentPageUrlOption cfg" and "openCurrentPageInBrowserOption cfg"
    and "launchMenu platform dictInfo cfg sc params = Inr t"
  shows "\<exists>pre. t = pre @
           [Item (ascii ''Copy current URL'') (Some CopyLocationHref) None None,
            Item (ascii ''Open page in Browser'') (Some OpenLocationHref) None None,
            Separator,
            Item (ascii ''Wavebox Settings'') (Some SendOpenSettings) None None,
            Item (ascii ''Inspect'') (Some (InspectElement (pos_x params) (pos_y params)))
              None None] \<and>
         \<not> list_ex is_current_page_item pre \<and>
         (pre = [] \<or> last pre = Separator)"
proof -
  from launchMenu_Inr [OF assms(3)] obtain spelling where
    sp: "spelling_section dictInfo sc params = Inr spelling" and
    t: "t = spelling @ link_section platform params @ search_section sc params @
         undo_section (editFlags params) @ text_editing_section (editFlags params) @
         current_page_section cfg @ wavebox_section params" by blast
  let ?pre = "spelling @ link_section platform params @ search_section sc params @
         undo_section (editFlags params) @ text_editing_section (editFlags params)"
  have cp: "current_page_section cfg @ wavebox_section params =
           [Item (ascii ''Copy current URL'') (Some CopyLocationHref) None None,
            Item (ascii ''Open page in Browser'') (Some OpenLocationHref) None None,
            Separator,
            Item (ascii ''Wavebox Settings'') (Some SendOpenSettings) None None,
            Item (ascii ''Inspect'') (Some (InspectElement (pos_x params) (pos_y params)))
              None None]"
    using assms(1,2)
    by (simp add: current_page_section_def copy_current_url_item_def open_page_item_def
        wavebox_section_def)
  have t': "t = ?pre @ current_page_section cfg @ wavebox_section params"
    unfolding t by simp
  have "filter is_current_page_item ?pre = []"
    by (simp add: spelling_no_current_page [OF sp] link_filters search_no_current_page
        undo_filters text_editing_filters)
  then have none: "\<not> list_ex is_current_page_item ?pre"
    by (simp only: not_list_ex_filter)
  have l1: "spelling = [] \<or> last spelling = Separator"
    using closed_section_last [OF closed_spelling [OF sp], of "[]"] by simp
  have l2: "spelling @ link_section platform params = [] \<or>
            last (spelling @ link_section platform params) = Separator"
    by (rule closed_section_last [OF closed_link l1])
  have l3: "(spelling @ link_section platform params) @ search_section sc params = [] \<or>
            last ((spelling @ link_section platform params) @ search_section sc params)
              = Separator"
    by (rule closed_section_last [OF closed_search l2])
  have l4: "((spelling @ link_section platform params) @ search_section sc params) @
              undo_section (editFlags params) = [] \<or>
            last (((spelling @ link_section platform params) @ search_section sc params) @
              undo_section (editFlags params)) = Separator"
    by (rule closed_section_last [OF closed_undo l3])
  have l5: "(((spelling @ link_section platform params) @ search_section sc params) @
              undo_section (editFlags params)) @ text_editing_section (editFlags params) = [] \<or>
            last ((((spelling @ link_section platform params) @ search_section sc params) @
              undo_section (editFlags params)) @ text_editing_section (editFlags params))
              = Separator"
    by (rule closed_section_last [OF closed_text_editing l4])
  have last: "?pre = [] \<or> last ?pre = Separator"
    using l5 by (simp only: append_assoc)
  show ?thesis
    apply (rule exI [of _ ?pre])
    apply (intro conjI)
      apply (simp only: t' cp)
     apply (rule none)
    apply (rule last)
    done
qed

theorem current_page_both_options_witness:
  "\<exists>t. copyCurrentPageUrlOption both_options_config \<and>
       openCurrentPageInBrowserOption both_options_config \<and>
       launchMenu ''linux'' no_dictInfo both_options_config None plain_params = Inr t \<and>
       t = [Item (ascii ''Copy current URL'') (Some CopyLocationHref) None None,
            Item (ascii ''Open page in Browser'') (Some OpenLocationHref) None None,
            Separator,
            Item (ascii ''Wavebox Settings'') (Some SendOpenSettings) None None,
            Item (ascii ''Inspect'') (Some (InspectElement 10 20)) None None]"
proof -
  have a: "copyCurrentPageUrlOption both_options_config"
    and b: "openCurrentPageInBrowserOption both_options_config"
    by (simp_all add: both_options_config_def)
  have "\<exists>t. launchMenu ''linux'' no_dictInfo both_options_config None plain_params = Inr t"
    by (simp add: launchMenu_def spelling_section_def spelling_gate_def)
  then obtain t where h: "launchMenu ''linux'' no_dictInfo both_options_config None
      plain_params = Inr t" ..
  from current_page_both_options [OF a b h] obtain pre where
    p: "t = pre @
           [Item (ascii ''Copy current URL'') (Some CopyLocationHref) None None,
            Item (ascii ''Open page in Browser'') (Some OpenLocationHref) None None,
            Separator,
            Item (ascii ''Wavebox Settings'') (Some SendOpenSettings) None None,
            Item (ascii ''Inspect'') (Some (InspectElement (pos_x plain_params) (pos_y plain_params)))
              None None]" by blast
  have "length t = 5"
    using h by (auto simp: launchMenu_def section_defs input_defs)
  with p have "pre = []" by simp
  with p a b h show ?thesis by (simp add: plain_params_def)
qed

end
